theory Spec2Isabelle
  imports Main "HOL-Library.Sublist"
begin

section \<open>Strings\<close>

text \<open>
  Python strings are modelled as lists of characters; the character classes below are the
  ASCII ones, so the model covers ASCII text (a URL is ASCII once percent-encoded).
\<close>

text \<open>\<^verbatim>\<open>p in s\<close> on strings: \<open>p\<close> occurs in \<open>s\<close> as a contiguous substring.\<close>

fun py_in :: "string \<Rightarrow> string \<Rightarrow> bool" where
  "py_in p [] = (p = [])"
| "py_in p (c # cs) = (prefix p (c # cs) \<or> py_in p cs)"

text \<open>\<^verbatim>\<open>str.lower()\<close> on ASCII.\<close>

definition lower_char :: "char \<Rightarrow> char" where
  "lower_char c =
     (case map_of (zip ''ABCDEFGHIJKLMNOPQRSTUVWXYZ'' ''abcdefghijklmnopqrstuvwxyz'') c of
        Some d \<Rightarrow> d
      | None \<Rightarrow> c)"

definition lower :: "string \<Rightarrow> string" where
  "lower s = map lower_char s"

text \<open>\<^verbatim>\<open>str(n)\<close> for integers, as the f-strings use it.\<close>

fun str_nat :: "nat \<Rightarrow> string" where
  "str_nat n =
     (if n < 10 then [''0123456789'' ! n]
      else str_nat (n div 10) @ [''0123456789'' ! (n mod 10)])"

declare str_nat.simps [simp del]

definition str_int :: "int \<Rightarrow> string" where
  "str_int i = (if i < 0 then CHR ''-'' # str_nat (nat (- i)) else str_nat (nat i))"

section \<open>Exceptions and instrumented runs\<close>

text \<open>
  The Python exceptions that the scripts raise, catch or let through, one constructor per
  most specific class that some \<^verbatim>\<open>except\<close> clause distinguishes. In Python
  \<^verbatim>\<open>HTTPError\<close> is a subclass of \<^verbatim>\<open>URLError\<close>, which is a subclass of
  \<^verbatim>\<open>OSError\<close>, and \<^verbatim>\<open>TimeoutError\<close> is a subclass of \<^verbatim>\<open>OSError\<close>;
  here \<open>URLError\<close> stands for a \<^verbatim>\<open>URLError\<close> that is not an \<^verbatim>\<open>HTTPError\<close>, and
  \<open>OSError\<close> for an \<^verbatim>\<open>OSError\<close> that is none of the three above, so that a chain of
  \<^verbatim>\<open>except\<close> clauses becomes a \<open>case\<close> in the same order. All constructors are
  subclasses of \<^verbatim>\<open>Exception\<close>.

  \<open>HTTPError code reason fp\<close>: \<open>fp\<close> is \<open>None\<close> when \<^verbatim>\<open>e.fp\<close> is false; otherwise it
  holds what \<^verbatim>\<open>e.read().decode('utf-8')\<close> does: \<open>Inr text\<close> when the body decodes to
  \<open>text\<close>, \<open>Inl msg\<close> when decoding raises a \<^verbatim>\<open>UnicodeDecodeError\<close> with message \<open>msg\<close>.
\<close>

datatype exn =
    HTTPError int string "(string + string) option"
  | URLError string
  | TimeoutError string
  | OSError string
  | JSONDecodeError string
  | RuntimeError string
  | TypeError string
  | UnicodeDecodeError string
  | OtherException string

text \<open>
  A run threads the outside world \<open>'s\<close> (network, file system) through the calls and
  records what the retry wrapper does: how often it invoked the wrapped function and the
  argument of every \<^verbatim>\<open>time.sleep\<close>, in order.
\<close>

record 's run =
  world :: 's
  calls :: nat
  sleeps :: "int list"

section \<open>The retry wrapper\<close>

definition MAX_RETRIES :: nat where
  "MAX_RETRIES = 5"

definition INITIAL_RETRY_DELAY :: int where
  "INITIAL_RETRY_DELAY = 1"

definition RETRY_BACKOFF_MULTIPLIER :: int where
  "RETRY_BACKOFF_MULTIPLIER = 2"

text \<open>
  \<^verbatim>\<open>for attempt in range(1, MAX_RETRIES + 1)\<close>: the loop over the remaining attempts, with
  the loop variables \<^verbatim>\<open>retry_delay\<close> and \<^verbatim>\<open>last_exception\<close>. The wrapped function
  \<open>func\<close> acts on the world and either returns a value or raises. After a transient failure
  on the last attempt the body only logs and falls through to the end of the loop;
  \<^verbatim>\<open>raise last_exception\<close> follows the loop (raising \<^verbatim>\<open>None\<close> is a \<^verbatim>\<open>TypeError\<close>).
\<close>

fun wrapper_loop ::
  "('s \<Rightarrow> (exn + 'a) \<times> 's) \<Rightarrow> nat list \<Rightarrow> int \<Rightarrow> exn option \<Rightarrow> 's run \<Rightarrow> (exn + 'a) \<times> 's run"
where
  "wrapper_loop func [] retry_delay last_exception r =
     (case last_exception of
        None \<Rightarrow> (Inl (TypeError ''exceptions must derive from BaseException''), r)
      | Some e \<Rightarrow> (Inl e, r))"
| "wrapper_loop func (attempt # rest) retry_delay last_exception r =
     (case func (world r) of
        (Inr v, w) \<Rightarrow> (Inr v, r\<lparr>world := w, calls := calls r + 1\<rparr>)
      | (Inl e, w) \<Rightarrow>
          (let r1 = r\<lparr>world := w, calls := calls r + 1\<rparr> in
           case e of
             HTTPError code reason body \<Rightarrow>
               if code \<in> {502, 503, 504} then
                 if attempt < MAX_RETRIES then
                   wrapper_loop func rest (retry_delay * RETRY_BACKOFF_MULTIPLIER) (Some e)
                     (r1\<lparr>sleeps := sleeps r1 @ [retry_delay]\<rparr>)
                 else wrapper_loop func rest retry_delay (Some e) r1
               else (Inl e, r1)
           | URLError reason \<Rightarrow>
               if attempt < MAX_RETRIES then
                 wrapper_loop func rest (retry_delay * RETRY_BACKOFF_MULTIPLIER) (Some e)
                   (r1\<lparr>sleeps := sleeps r1 @ [retry_delay]\<rparr>)
               else wrapper_loop func rest retry_delay (Some e) r1
           | _ \<Rightarrow> (Inl e, r1)))"

definition retry_on_transient_errors ::
  "('s \<Rightarrow> (exn + 'a) \<times> 's) \<Rightarrow> 's run \<Rightarrow> (exn + 'a) \<times> 's run"
where
  "retry_on_transient_errors func r =
     wrapper_loop func [1 ..< MAX_RETRIES + 1] INITIAL_RETRY_DELAY None r"

text \<open>The failures the wrapper retries: HTTP 502, 503, 504 and network errors.\<close>

fun transient :: "exn \<Rightarrow> bool" where
  "transient (HTTPError code reason body) = (code \<in> {502, 503, 504})"
| "transient (URLError reason) = True"
| "transient _ = False"

fun is_HTTPError :: "exn \<Rightarrow> bool" where
  "is_HTTPError (HTTPError code reason body) = True"
| "is_HTTPError _ = False"

fun is_URLError :: "exn \<Rightarrow> bool" where
  "is_URLError (URLError reason) = True"
| "is_URLError _ = False"

text \<open>\<^verbatim>\<open>str(e)\<close>, as the f-strings use it on a caught exception.\<close>

fun str_exn :: "exn \<Rightarrow> string" where
  "str_exn (HTTPError code reason fp) = ''HTTP Error '' @ str_int code @ '': '' @ reason"
| "str_exn (URLError reason) = ''<urlopen error '' @ reason @ ''>''"
| "str_exn (TimeoutError msg) = msg"
| "str_exn (OSError msg) = msg"
| "str_exn (JSONDecodeError msg) = msg"
| "str_exn (RuntimeError msg) = msg"
| "str_exn (TypeError msg) = msg"
| "str_exn (UnicodeDecodeError msg) = msg"
| "str_exn (OtherException msg) = msg"

text \<open>
  A scripted operation, as a test double: the world is the number of calls made so far, and
  the \<open>k\<close>-th call (from 0) has the outcome \<open>script k\<close>.
\<close>

definition scripted :: "(nat \<Rightarrow> exn + 'a) \<Rightarrow> nat \<Rightarrow> (exn + 'a) \<times> nat" where
  "scripted script k = (script k, Suc k)"

section \<open>The attachment extractor\<close>

text \<open>
  \<^verbatim>\<open>HTMLParser\<close> calls \<^verbatim>\<open>handle_starttag(tag, attrs)\<close> with \<open>attrs\<close> a list of
  (name, value) pairs; the value is \<open>None\<close> for an attribute written without a value.
  \<^verbatim>\<open>dict(attrs)\<close> keeps the last value of a repeated name.
\<close>

type_synonym attr_list = "(string \<times> string option) list"

definition dict :: "('k \<times> 'v) list \<Rightarrow> 'k \<rightharpoonup> 'v" where
  "dict kvs = map_of (rev kvs)"

text \<open>\<^verbatim>\<open>d.get(k, default)\<close>, and \<^verbatim>\<open>d.get(k)\<close> with the default \<open>None\<close>.\<close>

definition dict_get :: "('k \<rightharpoonup> 'v option) \<Rightarrow> 'k \<Rightarrow> 'v option \<Rightarrow> 'v option" where
  "dict_get d k dflt = (case d k of None \<Rightarrow> dflt | Some v \<Rightarrow> v)"

text \<open>Truth value of an optional string: \<open>None\<close> and the empty string are false.\<close>

definition truthy :: "string option \<Rightarrow> bool" where
  "truthy v = (case v of None \<Rightarrow> False | Some s \<Rightarrow> s \<noteq> [])"

record attachment =
  att_url :: string
  att_filename :: string
  att_file_type :: string
  att_dimensions :: "(string \<times> int) list option"
  att_tag_type :: string

definition attachment_domains :: "string list" where
  "attachment_domains =
     [''user-attachments.githubusercontent.com'',
      ''private-user-images.githubusercontent.com'',
      ''github-production-user-asset'']"

definition is_attachment_url :: "string option \<Rightarrow> bool" where
  "is_attachment_url url =
     (if \<not> truthy url then False
      else list_ex (\<lambda>domain. py_in domain (the url)) attachment_domains)"

subsection \<open>The three regular expressions\<close>

text \<open>
  \<^verbatim>\<open>re.search\<close> returns the leftmost match. Each of the three patterns starts with a
  literal character, followed by greedy character-class runs whose classes exclude the
  character that must follow, so at a given start the match, if any, takes the maximal runs.
  \<open>re_search m c0 s\<close> tries \<open>m\<close> on the text after each occurrence of \<open>c0\<close>, from the left,
  and returns group 1 of the first match.
\<close>

fun re_search :: "(string \<Rightarrow> string option) \<Rightarrow> char \<Rightarrow> string \<Rightarrow> string option" where
  "re_search m c0 [] = None"
| "re_search m c0 (c # cs) =
     (if c = c0 then (case m cs of Some g \<Rightarrow> Some g | None \<Rightarrow> re_search m c0 cs)
      else re_search m c0 cs)"

text \<open>The classes \<^verbatim>\<open>[a-f0-9-]\<close>, \<^verbatim>\<open>\w\<close> (ASCII) and \<^verbatim>\<open>[^/?]\<close>.\<close>

definition is_hex :: "char \<Rightarrow> bool" where
  "is_hex c = (c \<in> set ''abcdef0123456789-'')"

definition is_word :: "char \<Rightarrow> bool" where
  "is_word c =
     (c \<in> set ''abcdefghijklmnopqrstuvwxyzABCDEFGHIJKLMNOPQRSTUVWXYZ0123456789_'')"

definition is_segment_char :: "char \<Rightarrow> bool" where
  "is_segment_char c = (c \<noteq> CHR ''/'' \<and> c \<noteq> CHR ''?'')"

text \<open>
  \<^verbatim>\<open>$\<close> matches at the end of the string and before a newline that ends the string;
  \<^verbatim>\<open>(?:\?|$)\<close> also matches before a question mark.
\<close>

definition at_dollar :: "string \<Rightarrow> bool" where
  "at_dollar t = (t = [] \<or> t = [CHR 0x0A])"

definition query_or_dollar :: "string \<Rightarrow> bool" where
  "query_or_dollar t = (case t of [] \<Rightarrow> True | c # cs \<Rightarrow> c = CHR ''?'' \<or> at_dollar t)"

text \<open>\<^verbatim>\<open>/([a-f0-9-]+\.[\w]+)(?:\?|$)\<close> after the slash.\<close>

definition match_uuid_name :: "string \<Rightarrow> string option" where
  "match_uuid_name cs =
     (let h = takeWhile is_hex cs; t = dropWhile is_hex cs in
      if h = [] then None
      else case t of
        [] \<Rightarrow> None
      | d # t1 \<Rightarrow>
          if d \<noteq> CHR ''.'' then None
          else let w = takeWhile is_word t1; t2 = dropWhile is_word t1 in
            if w = [] then None
            else if query_or_dollar t2 then Some (h @ ''.'' @ w)
            else None)"

text \<open>\<^verbatim>\<open>/([^/?]+)(?:\?|$)\<close> after the slash.\<close>

definition match_last_segment :: "string \<Rightarrow> string option" where
  "match_last_segment cs =
     (let g = takeWhile is_segment_char cs; t = dropWhile is_segment_char cs in
      if g = [] then None
      else if query_or_dollar t then Some g
      else None)"

text \<open>\<^verbatim>\<open>\.(\w+)$\<close> after the dot.\<close>

definition match_extension :: "string \<Rightarrow> string option" where
  "match_extension cs =
     (let w = takeWhile is_word cs; t = dropWhile is_word cs in
      if w = [] then None
      else if at_dollar t then Some w
      else None)"

definition extract_filename :: "string \<Rightarrow> string" where
  "extract_filename url =
     (case re_search match_uuid_name (CHR ''/'') url of
        Some g \<Rightarrow> g
      | None \<Rightarrow>
          (case re_search match_last_segment (CHR ''/'') url of
             Some g \<Rightarrow> g
           | None \<Rightarrow> ''unknown_file''))"

definition extract_file_type :: "string \<Rightarrow> string" where
  "extract_file_type url =
     (let filename = extract_filename url in
      case re_search match_extension (CHR ''.'') filename of
        Some ext \<Rightarrow> lower ext
      | None \<Rightarrow> ''unknown'')"

subsection \<open>Dimensions and the tag handler\<close>

text \<open>
  \<open>to_int\<close> stands for Python's \<^verbatim>\<open>int(s)\<close> on a string: \<open>None\<close> is \<^verbatim>\<open>ValueError\<close>.
  The dictionary \<^verbatim>\<open>dimensions\<close> is the list of its items in insertion order.
\<close>

definition extract_dimensions ::
  "(string \<Rightarrow> int option) \<Rightarrow> (string \<rightharpoonup> string option) \<Rightarrow> (string \<times> int) list option"
where
  "extract_dimensions to_int attrs =
     (let width = dict_get attrs ''width'' None;
          height = dict_get attrs ''height'' None in
      if truthy width \<or> truthy height then
        (let dimensions0 = [];
             dimensions1 =
               (if truthy width then
                  (case to_int (the width) of
                     Some n \<Rightarrow> dimensions0 @ [(''width'', n)]
                   | None \<Rightarrow> dimensions0)
                else dimensions0);
             dimensions2 =
               (if truthy height then
                  (case to_int (the height) of
                     Some n \<Rightarrow> dimensions1 @ [(''height'', n)]
                   | None \<Rightarrow> dimensions1)
                else dimensions1)
         in if dimensions2 \<noteq> [] then Some dimensions2 else None)
      else None)"

text \<open>
  \<open>handle_starttag\<close> takes the parser's list \<^verbatim>\<open>self.attachments\<close> and returns it after the
  call.
\<close>

definition handle_starttag ::
  "(string \<Rightarrow> int option) \<Rightarrow> attachment list \<Rightarrow> string \<Rightarrow> attr_list \<Rightarrow> attachment list"
where
  "handle_starttag to_int attachments tag attrs =
     (let attrs_dict = dict attrs in
      if tag = ''img'' then
        (let src = dict_get attrs_dict ''src'' (Some []) in
         if is_attachment_url src then
           attachments @
             [\<lparr>att_url = the src,
               att_filename = extract_filename (the src),
               att_file_type = extract_file_type (the src),
               att_dimensions = extract_dimensions to_int attrs_dict,
               att_tag_type = ''img''\<rparr>]
         else attachments)
      else if tag = ''a'' then
        (let href = dict_get attrs_dict ''href'' (Some []) in
         if is_attachment_url href then
           attachments @
             [\<lparr>att_url = the href,
               att_filename = extract_filename (the href),
               att_file_type = extract_file_type (the href),
               att_dimensions = None,
               att_tag_type = ''a''\<rparr>]
         else attachments)
      else attachments)"

text \<open>
  \<open>feed\<close> stands for \<^verbatim>\<open>HTMLParser.feed\<close>: the start tags of the markup in document order
  (a self-closing tag is reported as a start tag too), or the exception the parser raised.
  Whatever the handler collected before an exception is dropped. The argument is \<open>None\<close>
  when the caller passes Python's \<^verbatim>\<open>None\<close>.
\<close>

definition extract_attachments_from_html ::
  "(string \<Rightarrow> exn + (string \<times> attr_list) list) \<Rightarrow> (string \<Rightarrow> int option) \<Rightarrow> string option
     \<Rightarrow> attachment list"
where
  "extract_attachments_from_html feed to_int html_content =
     (if \<not> truthy html_content then []
      else case feed (the html_content) of
        Inl e \<Rightarrow> []
      | Inr tags \<Rightarrow>
          fold (\<lambda>(tag, attrs) attachments. handle_starttag to_int attachments tag attrs)
            tags [])"

section \<open>The outside world\<close>

text \<open>
  What the scripts call outside this repository is a parameter of the model: the network,
  the file system, \<^verbatim>\<open>pathlib\<close>, the HTML parser, \<^verbatim>\<open>int\<close> and float formatting.
  \<^item> \<open>get_issue url token\<close>: \<^verbatim>\<open>urlopen\<close> of the request with the three headers,
    \<^verbatim>\<open>read\<close>, \<^verbatim>\<open>decode\<close> and \<^verbatim>\<open>json.loads\<close>: the issue object or the exception raised.
  \<^item> \<open>get_comments url token\<close>: the same for a page of comments, with the value of the
    response's \<^verbatim>\<open>Link\<close> header (\<open>None\<close> when there is none).
  \<^item> \<open>get_file url\<close>: \<^verbatim>\<open>urlopen(url, timeout=30)\<close> and \<^verbatim>\<open>read\<close>: the bytes.
  \<^item> \<open>mkdir_parent path\<close>: \<^verbatim>\<open>path.parent.mkdir(parents=True, exist_ok=True)\<close>;
    \<open>write_file path data\<close>: \<^verbatim>\<open>open(path, 'wb')\<close> and \<^verbatim>\<open>write\<close>.
  \<^item> \<open>path_join\<close>, \<open>path_name\<close>, \<open>path_suffix\<close>, \<open>path_absolute\<close>: the operator \<^verbatim>\<open>/\<close>,
    \<^verbatim>\<open>.name\<close>, \<^verbatim>\<open>.suffix\<close> and \<^verbatim>\<open>str(path.absolute())\<close> of a \<^verbatim>\<open>Path\<close>.
  \<^item> \<open>format_1f a b\<close>: the text of the float \<^verbatim>\<open>a / b\<close> formatted with \<^verbatim>\<open>:.1f\<close>.
\<close>

record raw_comment =
  rc_id :: int
  rc_user :: "string option"
  rc_created_at :: string
  rc_body :: "string option option"
  rc_body_html :: "string option option"

text \<open>
  A comment object of the API: \<open>rc_user\<close> is the login of \<^verbatim>\<open>comment['user']\<close>, \<open>None\<close> when
  the user is null or missing; \<open>rc_body\<close> and \<open>rc_body_html\<close> are \<open>None\<close> when the key is
  missing, \<open>Some None\<close> when its value is null and \<open>Some (Some text)\<close> when it is a string.
\<close>

record ('s, 'i, 'p) sys =
  get_issue :: "string \<Rightarrow> string \<Rightarrow> 's \<Rightarrow> (exn + 'i) \<times> 's"
  get_comments :: "string \<Rightarrow> string \<Rightarrow> 's \<Rightarrow> (exn + raw_comment list \<times> string option) \<times> 's"
  get_file :: "string \<Rightarrow> 's \<Rightarrow> (exn + string) \<times> 's"
  html_feed :: "string \<Rightarrow> exn + (string \<times> attr_list) list"
  py_int :: "string \<Rightarrow> int option"
  mkdir_parent :: "'p \<Rightarrow> 's \<Rightarrow> (exn + unit) \<times> 's"
  write_file :: "'p \<Rightarrow> string \<Rightarrow> 's \<Rightarrow> (exn + unit) \<times> 's"
  path_join :: "'p \<Rightarrow> string \<Rightarrow> 'p"
  path_name :: "'p \<Rightarrow> string"
  path_suffix :: "'p \<Rightarrow> string"
  path_absolute :: "'p \<Rightarrow> string"
  format_1f :: "int \<Rightarrow> int \<Rightarrow> string"


section \<open>Fetching the issue\<close>

text \<open>
  The body of \<^verbatim>\<open>fetch_issue_html\<close>, under the decorator: one request inside a
  \<^verbatim>\<open>try\<close> whose handlers turn every exception into a \<^verbatim>\<open>RuntimeError\<close>. The handler
  of \<^verbatim>\<open>HTTPError\<close> first decodes the body of the error; a \<^verbatim>\<open>UnicodeDecodeError\<close> raised
  there leaves the function as it is.
\<close>

definition fetch_issue_html_body ::
  "('s, 'i, 'p) sys \<Rightarrow> string \<Rightarrow> int \<Rightarrow> string \<Rightarrow> 's \<Rightarrow> (exn + 'i) \<times> 's"
where
  \<open>fetch_issue_html_body S repo issue_number github_token w =
     (let url = ''https://api.github.com/repos/'' @ repo @ ''/issues/'' @ str_int issue_number in
      case get_issue S url github_token w of
        (Inr issue_data, w1) \<Rightarrow> (Inr issue_data, w1)
      | (Inl e, w1) \<Rightarrow>
          (case e of
             HTTPError code reason fp \<Rightarrow>
               (case fp of
                  Some (Inl msg) \<Rightarrow> (Inl (UnicodeDecodeError msg), w1)
                | _ \<Rightarrow>
               (let error_body =
                      (case fp of Some (Inr b) \<Rightarrow> b | _ \<Rightarrow> ''No error details'') in
                if code = 401 then
                  (Inl (RuntimeError
                     (''Authentication failed (401): Invalid GitHub token. '' @
                      ''Please check your token has valid credentials.'')), w1)
                else if code = 403 then
                  (Inl (RuntimeError
                     (''Forbidden (403): Access denied. Your token may lack required permissions '' @
                      ''or you may have hit rate limits. Details: '' @ error_body)), w1)
                else if code = 404 then
                  (Inl (RuntimeError
                     (''Not found (404): Issue #'' @ str_int issue_number @
                      '' does not exist in '' @ repo @ '', '' @
                      ''or you don't have access to this repository.'')), w1)
                else
                  (Inl (RuntimeError
                     (''HTTP error '' @ str_int code @ '': '' @ reason @
                      ''. Details: '' @ error_body)), w1)))
           | URLError reason \<Rightarrow>
               (Inl (RuntimeError
                  (''Network error: Failed to connect to GitHub API. '' @
                   ''Please check your internet connection. Details: '' @ reason)), w1)
           | JSONDecodeError msg \<Rightarrow>
               (Inl (RuntimeError (''Invalid JSON response from GitHub API: '' @ msg)), w1)
           | _ \<Rightarrow>
               (Inl (RuntimeError (''Unexpected error fetching issue data: '' @ str_exn e)), w1)))\<close>

definition fetch_issue_html ::
  "('s, 'i, 'p) sys \<Rightarrow> string \<Rightarrow> int \<Rightarrow> string \<Rightarrow> 's run \<Rightarrow> (exn + 'i) \<times> 's run"
where
  "fetch_issue_html S repo issue_number github_token =
     retry_on_transient_errors (fetch_issue_html_body S repo issue_number github_token)"

section \<open>Fetching the comments\<close>

record comment_info =
  ci_comment_id :: int
  ci_author :: string
  ci_created_at :: string
  ci_body :: "string option"
  ci_body_html :: "string option"
  ci_attachments :: "attachment list"

definition rel_next :: string where
  \<open>rel_next = ''rel="next"''\<close>

definition fetch_comments_page_body ::
  "('s, 'i, 'p) sys \<Rightarrow> string \<Rightarrow> string \<Rightarrow> 's \<Rightarrow> (exn + raw_comment list \<times> bool) \<times> 's"
where
  "fetch_comments_page_body S api_url github_token w =
     (case get_comments S api_url github_token w of
        (Inl e, w1) \<Rightarrow> (Inl e, w1)
      | (Inr (comments_data, link), w1) \<Rightarrow>
          (let link_header = (case link of Some h \<Rightarrow> h | None \<Rightarrow> []);
               has_next_page = py_in rel_next link_header
           in (Inr (comments_data, has_next_page), w1)))"

definition fetch_comments_page ::
  "('s, 'i, 'p) sys \<Rightarrow> string \<Rightarrow> string \<Rightarrow> 's run \<Rightarrow> (exn + raw_comment list \<times> bool) \<times> 's run"
where
  "fetch_comments_page S api_url github_token =
     retry_on_transient_errors (fetch_comments_page_body S api_url github_token)"

text \<open>
  The dictionary \<^verbatim>\<open>comment_info\<close> built for one comment of a page; \<open>ci_body\<close> and
  \<open>ci_body_html\<close> are \<open>None\<close> when the value is Python's \<^verbatim>\<open>None\<close>.
\<close>

definition comment_info_of :: "('s, 'i, 'p) sys \<Rightarrow> raw_comment \<Rightarrow> comment_info" where
  "comment_info_of S comment =
     (let body_html = (case rc_body_html comment of None \<Rightarrow> Some [] | Some v \<Rightarrow> v);
          attachments = extract_attachments_from_html (html_feed S) (py_int S) body_html
      in \<lparr>ci_comment_id = rc_id comment,
          ci_author = (case rc_user comment of Some login \<Rightarrow> login | None \<Rightarrow> ''ghost''),
          ci_created_at = rc_created_at comment,
          ci_body = (case rc_body comment of None \<Rightarrow> Some [] | Some v \<Rightarrow> v),
          ci_body_html = body_html,
          ci_attachments = attachments\<rparr>)"

definition comments_api_url :: "string \<Rightarrow> int \<Rightarrow> nat \<Rightarrow> nat \<Rightarrow> string" where
  "comments_api_url repo issue_number per_page page =
     (''https://api.github.com/repos/'' @ repo @ ''/issues/'' @ str_int issue_number @
        ''/comments'') @
     (''?per_page='' @ str_nat per_page @ ''&page='' @ str_nat page)"

text \<open>
  The handlers around a page fetch: \<^verbatim>\<open>HTTPError\<close>, \<^verbatim>\<open>URLError\<close> and
  \<^verbatim>\<open>JSONDecodeError\<close> become a \<^verbatim>\<open>RuntimeError\<close>; anything else propagates. The
  handler of \<^verbatim>\<open>HTTPError\<close> first decodes the body of the error for the log; a
  \<^verbatim>\<open>UnicodeDecodeError\<close> raised there takes the place of the \<^verbatim>\<open>RuntimeError\<close>.
\<close>

definition comments_error :: "exn \<Rightarrow> exn" where
  "comments_error e =
     (case e of
        HTTPError code reason fp \<Rightarrow>
          (case fp of
             Some (Inl msg) \<Rightarrow> UnicodeDecodeError msg
           | _ \<Rightarrow>
               RuntimeError
                 (''Failed to fetch comments: HTTP '' @ str_int code @ '' - '' @ reason))
      | URLError reason \<Rightarrow> RuntimeError (''Failed to fetch comments: '' @ reason)
      | JSONDecodeError msg \<Rightarrow> RuntimeError ''Invalid JSON response from GitHub API''
      | _ \<Rightarrow> e)"

text \<open>
  \<^verbatim>\<open>while True\<close> with the loop variables \<^verbatim>\<open>page\<close> and \<^verbatim>\<open>all_comments\<close>. The loop
  need not end (a backend may announce a next page for ever), so the result is optional:
  \<open>None\<close> is a loop that never returns.
\<close>

partial_function (option) fetch_comments_loop ::
  "('s, 'i, 'p) sys \<Rightarrow> string \<Rightarrow> int \<Rightarrow> string \<Rightarrow> nat \<Rightarrow> nat \<Rightarrow> comment_info list \<Rightarrow> 's run
     \<Rightarrow> ((exn + comment_info list) \<times> 's run) option"
where
  "fetch_comments_loop S repo issue_number github_token per_page page all_comments r =
     (case fetch_comments_page S (comments_api_url repo issue_number per_page page)
             github_token r of
        (Inl e, r1) \<Rightarrow> Some (Inl (comments_error e), r1)
      | (Inr (comments_data, has_next_page), r1) \<Rightarrow>
          if comments_data = [] then Some (Inr all_comments, r1)
          else if \<not> has_next_page then
            Some (Inr (all_comments @ map (comment_info_of S) comments_data), r1)
          else
            fetch_comments_loop S repo issue_number github_token per_page (page + 1)
              (all_comments @ map (comment_info_of S) comments_data) r1)"

declare fetch_comments_loop.simps [code]

definition fetch_comments_html ::
  "('s, 'i, 'p) sys \<Rightarrow> string \<Rightarrow> int \<Rightarrow> string \<Rightarrow> 's run
     \<Rightarrow> ((exn + comment_info list) \<times> 's run) option"
where
  "fetch_comments_html S repo issue_number github_token r =
     fetch_comments_loop S repo issue_number github_token 100 1 [] r"

section \<open>Downloading attachments\<close>




text \<open>\<^verbatim>\<open>url.split('?')[0] if '?' in url else url\<close>\<close>

definition strip_query :: "string \<Rightarrow> string" where
  "strip_query url =
     (if CHR ''?'' \<in> set url then takeWhile (\<lambda>c. c \<noteq> CHR ''?'') url else url)"





text \<open>The fields of the fetcher and of \<^verbatim>\<open>issue_data\<close> that the download phase reads.\<close>

record 'p fetcher =
  issue_number :: int
  issue_attachments_dir :: 'p
  comments_attachments_dir :: 'p

record issue_data =
  issue_attachments :: "attachment list option"
  issue_comments :: "comment_info list option"









section \<open>Priority of an open issue\<close>

text \<open>
  The loop over the labels of one issue in \<^verbatim>\<open>collect-issue-stats.py\<close>, on the label
  names; \<open>priority\<close> is the loop variable, and \<^verbatim>\<open>break\<close> ends the loop.
\<close>

fun priority_loop :: "string \<Rightarrow> string list \<Rightarrow> string" where
  "priority_loop priority [] = priority"
| "priority_loop priority (name # rest) =
     (let label_name = lower name in
      if py_in ''critical'' label_name then ''critical''
      else if py_in ''high'' label_name then priority_loop ''high'' rest
      else if py_in ''medium'' label_name \<and> priority = ''unprioritized'' then
        priority_loop ''medium'' rest
      else if py_in ''low'' label_name \<and> priority = ''unprioritized'' then
        priority_loop ''low'' rest
      else priority_loop priority rest)"

definition issue_priority :: "string list \<Rightarrow> string" where
  "issue_priority labels = priority_loop ''unprioritized'' labels"

section \<open>Notions of the specification\<close>

text \<open>
  The continuation marker of a page: the \<^verbatim>\<open>Link\<close> header holds a \<open>next\<close> relation.
\<close>

definition has_next_marker :: "string option \<Rightarrow> bool" where
  "has_next_marker link = py_in rel_next (case link of Some h \<Rightarrow> h | None \<Rightarrow> [])"

text \<open>
  The host of a URL, as the specification speaks of it: the text between \<open>://\<close> and the
  next slash, question mark or hash. The scripts have no such function; it serves to state
  what the specification says about hosts.
\<close>

fun after_scheme :: "string \<Rightarrow> string" where
  "after_scheme (a # b # c # rest) =
     (if a = CHR '':'' \<and> b = CHR ''/'' \<and> c = CHR ''/'' then rest
      else after_scheme (b # c # rest))"
| "after_scheme _ = []"

definition url_host :: "string \<Rightarrow> string" where
  "url_host url = takeWhile (\<lambda>c. c \<notin> set ''/?#'') (after_scheme url)"

text \<open>
  The host matches the allow-list, in the widest reading: an entry of the list occurs in
  the host.
\<close>

definition host_in_allow_list :: "string \<Rightarrow> bool" where
  "host_in_allow_list url = list_ex (\<lambda>domain. py_in domain (url_host url)) attachment_domains"

text \<open>
  The precedence chain of the specification read as a strict order: critical before high
  before medium before low before unprioritized, whatever the order of the labels.
\<close>

definition priority_by_precedence :: "string list \<Rightarrow> string" where
  "priority_by_precedence labels =
     (let names = map lower labels in
      if list_ex (py_in ''critical'') names then ''critical''
      else if list_ex (py_in ''high'') names then ''high''
      else if list_ex (py_in ''medium'') names then ''medium''
      else if list_ex (py_in ''low'') names then ''low''
      else ''unprioritized'')"



section \<open>Test doubles\<close>

text \<open>
  Decimal integers in ASCII, after Python's \<^verbatim>\<open>int(s)\<close>: surrounding white space
  (tab, line feed, vertical tab, form feed, carriage return, space), one optional sign,
  digits with single underscores between them, and at most 4300 digits.
\<close>

definition is_space :: "char \<Rightarrow> bool" where
  "is_space c = (c \<in> set [CHR 0x09, CHR 0x0A, CHR 0x0B, CHR 0x0C, CHR 0x0D, CHR 0x20])"

definition strip :: "string \<Rightarrow> string" where
  "strip s = rev (dropWhile is_space (rev (dropWhile is_space s)))"

definition digit_value :: "char \<Rightarrow> nat option" where
  "digit_value c = map_of (zip ''0123456789'' [0, 1, 2, 3, 4, 5, 6, 7, 8, 9]) c"

fun decimal_digits :: "nat \<Rightarrow> string \<Rightarrow> nat option" where
  "decimal_digits acc [] = Some acc"
| "decimal_digits acc [c] =
     (case digit_value c of None \<Rightarrow> None | Some v \<Rightarrow> Some (10 * acc + v))"
| "decimal_digits acc (c # d # ds) =
     (if c = CHR ''_'' then
        (case digit_value d of None \<Rightarrow> None | Some v \<Rightarrow> decimal_digits (10 * acc + v) ds)
      else
        (case digit_value c of None \<Rightarrow> None | Some v \<Rightarrow> decimal_digits (10 * acc + v) (d # ds)))"

definition decimal_int :: "string \<Rightarrow> int option" where
  "decimal_int s =
     (let t = strip s;
          negative = (t \<noteq> [] \<and> hd t = CHR ''-'');
          u = (if t \<noteq> [] \<and> (hd t = CHR ''-'' \<or> hd t = CHR ''+'') then tl t else t)
      in if length (filter (\<lambda>c. digit_value c \<noteq> None) u) > 4300 then None
         else case u of
           [] \<Rightarrow> None
         | d # ds \<Rightarrow>
             (case digit_value d of
                None \<Rightarrow> None
              | Some v \<Rightarrow>
                  map_option (\<lambda>n. if negative then - int n else int n) (decimal_digits v ds)))"

text \<open>
  One decimal place of the exact quotient \<open>a / b\<close>, rounded half to even, for positive \<open>b\<close>
  and non-negative \<open>a\<close>.
\<close>

definition one_decimal :: "int \<Rightarrow> int \<Rightarrow> string" where
  "one_decimal a b =
     (let q = (10 * a) div b;
          rest = (10 * a) mod b;
          t = (if 2 * rest > b \<or> (2 * rest = b \<and> odd q) then q + 1 else q)
      in str_int (t div 10) @ ''.'' @ str_int (t mod 10))"

text \<open>
  A world in which nothing fails: every request is answered with an empty result, paths
  are strings joined with a slash (the suffix of a path is the text from the last dot of
  its name, when that dot is neither the first nor the last character), the HTML parser
  reports no tag.
\<close>

definition stub_sys :: "('s, string, string) sys" where
  "stub_sys =
     \<lparr>get_issue = (\<lambda>url token w. (Inr [], w)),
      get_comments = (\<lambda>url token w. (Inr ([], None), w)),
      get_file = (\<lambda>url w. (Inr [], w)),
      html_feed = (\<lambda>html. Inr []),
      py_int = decimal_int,
      mkdir_parent = (\<lambda>path w. (Inr (), w)),
      write_file = (\<lambda>path data w. (Inr (), w)),
      path_join = (\<lambda>dir name. dir @ ''/'' @ name),
      path_name = (\<lambda>path. rev (takeWhile (\<lambda>c. c \<noteq> CHR ''/'') (rev path))),
      path_suffix = (\<lambda>path.
        (let name = rev (takeWhile (\<lambda>c. c \<noteq> CHR ''/'') (rev path));
             ext = rev (takeWhile (\<lambda>c. c \<noteq> CHR ''.'') (rev name)) in
         if CHR ''.'' \<in> set name \<and> ext \<noteq> [] \<and> length ext + 1 < length name then
           CHR ''.'' # ext
         else [])),
      path_absolute = (\<lambda>path. path),
      format_1f = one_decimal\<rparr>"

text \<open>
  A paged backend: the world is the list of the URLs requested so far, and the \<open>k\<close>-th
  request is answered with the \<open>k\<close>-th page (its comments and its \<^verbatim>\<open>Link\<close> header); past
  the last page the backend answers with an empty page.
\<close>

definition serve ::
  "(raw_comment list \<times> string option) list \<Rightarrow> string \<Rightarrow> string \<Rightarrow> string list
     \<Rightarrow> (exn + raw_comment list \<times> string option) \<times> string list"
where
  "serve pages url token log =
     (case drop (length log) pages of
        [] \<Rightarrow> (Inr ([], None), log @ [url])
      | p # rest \<Rightarrow> (Inr p, log @ [url]))"

text \<open>The comments numbered from \<open>lo\<close> up to \<open>hi - 1\<close>, as a backend would return them.\<close>

definition numbered_comments :: "nat \<Rightarrow> nat \<Rightarrow> raw_comment list" where
  "numbered_comments lo hi =
     map (\<lambda>n. \<lparr>rc_id = int n, rc_user = Some ''octocat'', rc_created_at = ''2024-01-01T00:00:00Z'',
                rc_body = Some (Some ''text''), rc_body_html = Some (Some ''<p>text</p>'')\<rparr>) [lo ..< hi]"

definition next_link :: string where
  \<open>next_link = ''<https://api.github.com/next>; rel="next", <https://api.github.com/last>; rel="last"''\<close>

text \<open>
  The issue endpoint answers the first request with 503 and every later one with an issue.
\<close>

definition flaky_issue_sys :: "(nat, string, string) sys" where
  "flaky_issue_sys =
     stub_sys\<lparr>get_issue := (\<lambda>url token k.
        (if k = 0 then Inl (HTTPError 503 ''Service Unavailable'' None) else Inr ''issue'',
         Suc k))\<rparr>"




section \<open>Properties of the retry wrapper\<close>

lemma attempts: "[1 ..< MAX_RETRIES + 1] = [1, 2, 3, 4, 5]"
  by (simp add: MAX_RETRIES_def upt_rec)

lemma retry_unfold:
  "retry_on_transient_errors func r = wrapper_loop func [1, 2, 3, 4, 5] 1 None r"
  unfolding retry_on_transient_errors_def attempts INITIAL_RETRY_DELAY_def ..

lemma wrapper_loop_returns:
  "func (world r) = (Inr v, w) \<Longrightarrow>
   wrapper_loop func (attempt # rest) d lst r = (Inr v, r\<lparr>world := w, calls := calls r + 1\<rparr>)"
  by simp

lemma wrapper_loop_raises:
  "func (world r) = (Inl e, w) \<Longrightarrow> \<not> is_HTTPError e \<Longrightarrow> \<not> is_URLError e \<Longrightarrow>
   wrapper_loop func (attempt # rest) d lst r = (Inl e, r\<lparr>world := w, calls := calls r + 1\<rparr>)"
  by (cases e) simp_all

lemma wrapper_loop_retries:
  "func (world r) = (Inl e, w) \<Longrightarrow> transient e \<Longrightarrow>
   wrapper_loop func (attempt # rest) d lst r =
     (if attempt < MAX_RETRIES then
        wrapper_loop func rest (d * 2) (Some e)
          (r\<lparr>world := w, calls := calls r + 1, sleeps := sleeps r @ [d]\<rparr>)
      else wrapper_loop func rest d (Some e) (r\<lparr>world := w, calls := calls r + 1\<rparr>))"
  by (cases e) (simp_all add: RETRY_BACKOFF_MULTIPLIER_def)

lemma retry_returns_first:
  "func (world r) = (Inr v, w) \<Longrightarrow>
   retry_on_transient_errors func r = (Inr v, r\<lparr>world := w, calls := calls r + 1\<rparr>)"
  by (simp add: retry_unfold)

text \<open>
  An operation whose every call fails with a transient error is called five times, with
  the four sleeps 1, 2, 4, 8 between the calls, and the failure of the fifth call is raised.
\<close>

lemma retry_exhaustion:
  assumes always: "\<And>w. \<exists>e w'. func w = (Inl e, w') \<and> transient e"
  shows "\<exists>e w'. transient e \<and>
    retry_on_transient_errors func r =
      (Inl e, r\<lparr>world := w', calls := calls r + 5, sleeps := sleeps r @ [1, 2, 4, 8]\<rparr>)"
proof -
  obtain e1 w1 where f1: "func (world r) = (Inl e1, w1)" and t1: "transient e1"
    using always by blast
  obtain e2 w2 where f2: "func w1 = (Inl e2, w2)" and t2: "transient e2"
    using always by blast
  obtain e3 w3 where f3: "func w2 = (Inl e3, w3)" and t3: "transient e3"
    using always by blast
  obtain e4 w4 where f4: "func w3 = (Inl e4, w4)" and t4: "transient e4"
    using always by blast
  obtain e5 w5 where f5: "func w4 = (Inl e5, w5)" and t5: "transient e5"
    using always by blast
  define r1 where "r1 = r\<lparr>world := w1, calls := calls r + 1, sleeps := sleeps r @ [1]\<rparr>"
  define r2 where "r2 = r1\<lparr>world := w2, calls := calls r1 + 1, sleeps := sleeps r1 @ [2]\<rparr>"
  define r3 where "r3 = r2\<lparr>world := w3, calls := calls r2 + 1, sleeps := sleeps r2 @ [4]\<rparr>"
  define r4 where "r4 = r3\<lparr>world := w4, calls := calls r3 + 1, sleeps := sleeps r3 @ [8]\<rparr>"
  have s1: "wrapper_loop func [1, 2, 3, 4, 5] 1 None r = wrapper_loop func [2, 3, 4, 5] 2 (Some e1) r1"
    using wrapper_loop_retries [of func r e1 w1] f1 t1 by (simp add: MAX_RETRIES_def r1_def)
  have s2: "wrapper_loop func [2, 3, 4, 5] 2 (Some e1) r1 = wrapper_loop func [3, 4, 5] 4 (Some e2) r2"
    using wrapper_loop_retries [of func r1 e2 w2] f2 t2 by (simp add: MAX_RETRIES_def r1_def r2_def)
  have s3: "wrapper_loop func [3, 4, 5] 4 (Some e2) r2 = wrapper_loop func [4, 5] 8 (Some e3) r3"
    using wrapper_loop_retries [of func r2 e3 w3] f3 t3 by (simp add: MAX_RETRIES_def r2_def r3_def)
  have s4: "wrapper_loop func [4, 5] 8 (Some e3) r3 = wrapper_loop func [5] 16 (Some e4) r4"
    using wrapper_loop_retries [of func r3 e4 w4] f4 t4 by (simp add: MAX_RETRIES_def r3_def r4_def)
  have s5: "wrapper_loop func [5] 16 (Some e4) r4 = (Inl e5, r4\<lparr>world := w5, calls := calls r4 + 1\<rparr>)"
    using wrapper_loop_retries [of func r4 e5 w5] f5 t5 by (simp add: MAX_RETRIES_def r4_def)
  have "retry_on_transient_errors func r = (Inl e5, r4\<lparr>world := w5, calls := calls r4 + 1\<rparr>)"
    by (simp only: retry_unfold s1 s2 s3 s4 s5)
  moreover have "r4\<lparr>world := w5, calls := calls r4 + 1\<rparr> =
      r\<lparr>world := w5, calls := calls r + 5, sleeps := sleeps r @ [1, 2, 4, 8]\<rparr>"
    by (simp add: r1_def r2_def r3_def r4_def)
  ultimately show ?thesis using t5 by auto
qed

text \<open>
  Claim C10. When the wrapped operation raises an exception that is neither an
  \<^verbatim>\<open>HTTPError\<close> nor a \<^verbatim>\<open>URLError\<close>, the wrapper has called it exactly once more, has
  not slept, and raises that same exception; this holds at every attempt of the loop, so
  only an \<^verbatim>\<open>HTTPError\<close> or a \<^verbatim>\<open>URLError\<close> can start a retry.
\<close>

theorem retry_other_exception_propagates:
  assumes "func (world r) = (Inl e, w)" and "\<not> is_HTTPError e" and "\<not> is_URLError e"
  shows "retry_on_transient_errors func r = (Inl e, r\<lparr>world := w, calls := calls r + 1\<rparr>)
    \<and> (\<forall>attempt rest d lst.
         wrapper_loop func (attempt # rest) d lst r =
           (Inl e, r\<lparr>world := w, calls := calls r + 1\<rparr>))"
  using assms
  by (simp add: retry_unfold wrapper_loop_raises del: wrapper_loop.simps)

theorem retry_other_exception_propagates_witness:
  "retry_on_transient_errors (scripted (\<lambda>k. Inl (RuntimeError ''boom'') :: exn + unit))
     \<lparr>world = 0, calls = 0, sleeps = []\<rparr> =
   (Inl (RuntimeError ''boom''), \<lparr>world = 1, calls = 1, sleeps = []\<rparr>)"
  using retry_other_exception_propagates
    [of "scripted (\<lambda>k. Inl (RuntimeError ''boom'') :: exn + unit)"
        "\<lparr>world = 0, calls = 0, sleeps = []\<rparr>" "RuntimeError ''boom''" 1]
  by (simp add: scripted_def)

text \<open>
  Claim C4. An operation that fails with HTTP 503 on its first two calls and returns on the
  third is called three times (retried twice), the wrapper returns its value, and the
  wrapper has slept 1 and then 2 seconds, 3 seconds in all. An operation that fails with an
  HTTP status other than 502, 503 and 504 (404, 401, 403, ...) is called once and the error
  is raised at once, without a sleep.
\<close>

theorem retry_503_then_success_and_404_once:
  "(func (world r) = (Inl (HTTPError 503 reason1 fp1), w1) \<and>
    func w1 = (Inl (HTTPError 503 reason2 fp2), w2) \<and>
    func w2 = (Inr v, w3) \<longrightarrow>
      retry_on_transient_errors func r =
        (Inr v, r\<lparr>world := w3, calls := calls r + 3, sleeps := sleeps r @ [1, 2]\<rparr>) \<and>
      sum_list (sleeps (snd (retry_on_transient_errors func r))) = sum_list (sleeps r) + 3)
   \<and>
   (func' (world r') = (Inl (HTTPError code reason fp), w) \<and> code \<notin> {502, 503, 504} \<longrightarrow>
      retry_on_transient_errors func' r' =
        (Inl (HTTPError code reason fp), r'\<lparr>world := w, calls := calls r' + 1\<rparr>))"
  by (simp add: retry_unfold MAX_RETRIES_def RETRY_BACKOFF_MULTIPLIER_def)

theorem retry_503_then_success_and_404_once_witness:
  "retry_on_transient_errors
     (scripted (\<lambda>k. if k < 2 then Inl (HTTPError 503 ''Service Unavailable'' None) else Inr ''ok''))
     \<lparr>world = 0, calls = 0, sleeps = []\<rparr> =
     (Inr ''ok'', \<lparr>world = 3, calls = 3, sleeps = [1, 2]\<rparr>)
   \<and>
   retry_on_transient_errors
     (scripted (\<lambda>k. Inl (HTTPError 404 ''Not Found'' None) :: exn + string))
     \<lparr>world = 0, calls = 0, sleeps = []\<rparr> =
     (Inl (HTTPError 404 ''Not Found'' None), \<lparr>world = 1, calls = 1, sleeps = []\<rparr>)"
  using retry_503_then_success_and_404_once
    [of "scripted (\<lambda>k. if k < 2 then Inl (HTTPError 503 ''Service Unavailable'' None) else Inr ''ok'')"
        "\<lparr>world = 0, calls = 0, sleeps = []\<rparr>" "''Service Unavailable''" None 1
        "''Service Unavailable''" None 2 "''ok''" 3
        "scripted (\<lambda>k. Inl (HTTPError 404 ''Not Found'' None) :: exn + string)"
        "\<lparr>world = 0, calls = 0, sleeps = []\<rparr>" 404 "''Not Found''" None 1]
  by (simp add: scripted_def)

text \<open>
  Claim C3. An operation that fails with HTTP 503 on every call is called five times and
  the last failure is raised, but the wrapper sleeps four times, 1, 2, 4 and 8 seconds:
  there is no sleep of 16 seconds, which the claim and the docstring of the wrapper
  (\<^verbatim>\<open>Uses exponential backoff: 1s, 2s, 4s, 8s, 16s\<close>) announce.
\<close>

theorem retry_exhaustion_sleeps_four_times:
  "retry_on_transient_errors
     (scripted (\<lambda>k. Inl (HTTPError 503 ''Service Unavailable'' None) :: exn + unit))
     \<lparr>world = 0, calls = 0, sleeps = []\<rparr> =
   (Inl (HTTPError 503 ''Service Unavailable'' None), \<lparr>world = 5, calls = 5, sleeps = [1, 2, 4, 8]\<rparr>)"
  by (simp add: retry_unfold MAX_RETRIES_def RETRY_BACKOFF_MULTIPLIER_def scripted_def)

section \<open>The issue fetch\<close>

text \<open>
  Whatever the request raises, the body of \<^verbatim>\<open>fetch_issue_html\<close> raises a
  \<^verbatim>\<open>RuntimeError\<close>, or the \<^verbatim>\<open>UnicodeDecodeError\<close> of its own handler; the wrapper
  retries neither: the issue is requested once.
\<close>

lemma fetch_issue_html_body_raises:
  "get_issue S (''https://api.github.com/repos/'' @ repo @ ''/issues/'' @ str_int n) token w
     = (Inl e, w1) \<Longrightarrow>
   \<exists>e'. fetch_issue_html_body S repo n token w = (Inl e', w1) \<and>
        \<not> is_HTTPError e' \<and> \<not> is_URLError e'"
  by (cases e) (auto simp add: fetch_issue_html_body_def Let_def split: option.splits sum.splits)

lemma fetch_issue_html_single_attempt:
  assumes "get_issue S (''https://api.github.com/repos/'' @ repo @ ''/issues/'' @ str_int n)
             token (world r) = (Inl e, w1)"
  shows "\<exists>e'. fetch_issue_html S repo n token r =
           (Inl e', r\<lparr>world := w1, calls := calls r + 1\<rparr>) \<and>
         \<not> is_HTTPError e' \<and> \<not> is_URLError e'"
proof -
  obtain e' where body: "fetch_issue_html_body S repo n token (world r) = (Inl e', w1)"
    and other: "\<not> is_HTTPError e'" "\<not> is_URLError e'"
    using fetch_issue_html_body_raises [OF assms] by blast
  have "wrapper_loop (fetch_issue_html_body S repo n token) (1 # [2, 3, 4, 5]) 1 None r =
      (Inl e', r\<lparr>world := w1, calls := calls r + 1\<rparr>)"
    using body other by (rule wrapper_loop_raises)
  then have "fetch_issue_html S repo n token r =
      (Inl e', r\<lparr>world := w1, calls := calls r + 1\<rparr>)"
    by (simp only: fetch_issue_html_def retry_unfold)
  then show ?thesis using other by blast
qed

text \<open>
  Claim C1. The issue endpoint answers the first request with HTTP 503 and would answer the
  second with the issue: \<^verbatim>\<open>fetch_issue_html\<close> makes one request, does not sleep and
  raises a \<^verbatim>\<open>RuntimeError\<close>. The single transient failure aborts the issue fetch.
\<close>

theorem fetch_issue_html_503_not_retried:
  "fetch_issue_html flaky_issue_sys ''octo/repo'' 7 ''token'' \<lparr>world = 0, calls = 0, sleeps = []\<rparr> =
   (Inl (RuntimeError ''HTTP error 503: Service Unavailable. Details: No error details''),
    \<lparr>world = 1, calls = 1, sleeps = []\<rparr>)"
  by (simp add: fetch_issue_html_def fetch_issue_html_body_def flaky_issue_sys_def stub_sys_def
        retry_unfold str_int_def str_nat.simps)


section \<open>Properties of the attachment extractor\<close>

lemma py_in_sublist: "py_in p s \<longleftrightarrow> sublist p s"
  by (induction s) (simp_all add: sublist_Cons_right)

lemma is_attachment_url_iff:
  "is_attachment_url url \<longleftrightarrow>
     (\<exists>u. url = Some u \<and> u \<noteq> [] \<and> (\<exists>domain \<in> set attachment_domains. sublist domain u))"
  by (cases url) (auto simp add: is_attachment_url_def truthy_def list_ex_iff py_in_sublist)

lemma handle_starttag_urls:
  assumes "\<forall>a \<in> set acc. is_attachment_url (Some (att_url a))"
  shows "\<forall>a \<in> set (handle_starttag to_int acc tag attrs). is_attachment_url (Some (att_url a))"
proof -
  have some: "\<And>v. is_attachment_url v \<Longrightarrow> Some (the v) = v"
    by (auto simp add: is_attachment_url_iff)
  show ?thesis
    using assms by (auto simp add: handle_starttag_def Let_def some)
qed

lemma fold_handle_starttag_urls:
  "\<forall>a \<in> set acc. is_attachment_url (Some (att_url a)) \<Longrightarrow>
   \<forall>a \<in> set (fold (\<lambda>(tag, attrs) attachments. handle_starttag to_int attachments tag attrs) tags acc).
     is_attachment_url (Some (att_url a))"
proof (induction tags arbitrary: acc)
  case Nil
  then show ?case by simp
next
  case (Cons t tags)
  obtain tag attrs where t: "t = (tag, attrs)" by (cases t)
  show ?case
    using Cons.IH [OF handle_starttag_urls [OF Cons.prems, of to_int tag attrs]]
    by (simp add: t)
qed

lemma extracted_urls:
  "\<forall>a \<in> set (extract_attachments_from_html feed to_int html). is_attachment_url (Some (att_url a))"
proof (cases "truthy html")
  case False
  then show ?thesis by (simp add: extract_attachments_from_html_def)
next
  case True
  show ?thesis
  proof (cases "feed (the html)")
    case (Inl e)
    with True show ?thesis by (simp add: extract_attachments_from_html_def)
  next
    case (Inr tags)
    with True show ?thesis
      using fold_handle_starttag_urls [of "[]" to_int tags]
      by (simp add: extract_attachments_from_html_def)
  qed
qed

text \<open>
  The three strings of the allow-list, and where the code looks for them: anywhere in the
  URL.
\<close>

lemma is_attachment_url_three_strings:
  "is_attachment_url url \<longleftrightarrow>
     (\<exists>u. url = Some u \<and> u \<noteq> [] \<and>
        (sublist ''user-attachments.githubusercontent.com'' u \<or>
         sublist ''private-user-images.githubusercontent.com'' u \<or>
         sublist ''github-production-user-asset'' u))"
  by (auto simp add: is_attachment_url_iff attachment_domains_def)

lemma extracted_urls_allow_listed:
  "\<forall>a \<in> set (extract_attachments_from_html feed to_int html).
     sublist ''user-attachments.githubusercontent.com'' (att_url a) \<or>
     sublist ''private-user-images.githubusercontent.com'' (att_url a) \<or>
     sublist ''github-production-user-asset'' (att_url a)"
  using extracted_urls [of feed to_int html] by (auto simp add: is_attachment_url_three_strings)

text \<open>
  Claim C2. The three URLs below have the host \<open>example.com\<close>, in which no entry of the
  allow-list occurs; an entry occurs in the query string or in the path. Each of them is
  classified as an attachment, and an \<open>a\<close> tag that links to the first appears in the
  output of the extraction: a URL whose host is not in the allow-list is extracted.
\<close>

theorem attachment_url_with_foreign_host:
  "is_attachment_url (Some ''https://example.com/download?ref=user-attachments.githubusercontent.com'')
   \<and> url_host ''https://example.com/download?ref=user-attachments.githubusercontent.com'' = ''example.com''
   \<and> \<not> host_in_allow_list ''https://example.com/download?ref=user-attachments.githubusercontent.com''
   \<and> map att_url
        (extract_attachments_from_html
           (\<lambda>html. Inr [(''a'', [(''href'', Some ''https://example.com/download?ref=user-attachments.githubusercontent.com'')])])
           decimal_int (Some ''<a href=https://example.com/download?ref=user-attachments.githubusercontent.com>''))
      = [''https://example.com/download?ref=user-attachments.githubusercontent.com'']
   \<and> is_attachment_url (Some ''https://example.com/?from=private-user-images.githubusercontent.com'')
   \<and> \<not> host_in_allow_list ''https://example.com/?from=private-user-images.githubusercontent.com''
   \<and> is_attachment_url (Some ''https://example.com/github-production-user-asset/x.png'')
   \<and> \<not> host_in_allow_list ''https://example.com/github-production-user-asset/x.png''"
proof -
  let ?url = "''https://example.com/download?ref=user-attachments.githubusercontent.com''"
  let ?url2 = "''https://example.com/?from=private-user-images.githubusercontent.com''"
  let ?url3 = "''https://example.com/github-production-user-asset/x.png''"
  have classified: "is_attachment_url (Some ?url)"
    by (simp add: is_attachment_url_def truthy_def attachment_domains_def)
  have host: "url_host ?url = ''example.com''"
    by (simp add: url_host_def)
  have foreign: "\<not> host_in_allow_list ?url"
    by (simp add: host_in_allow_list_def host attachment_domains_def)
  have out: "map att_url
        (extract_attachments_from_html
           (\<lambda>html. Inr [(''a'', [(''href'', Some ?url)])])
           decimal_int (Some ''<a href=https://example.com/download?ref=user-attachments.githubusercontent.com>''))
      = [?url]"
    using classified
    by (simp add: extract_attachments_from_html_def handle_starttag_def dict_def dict_get_def
          truthy_def)
  have classified2: "is_attachment_url (Some ?url2)"
    by (simp add: is_attachment_url_def truthy_def attachment_domains_def)
  have host2: "url_host ?url2 = ''example.com''"
    by (simp add: url_host_def)
  have foreign2: "\<not> host_in_allow_list ?url2"
    by (simp add: host_in_allow_list_def host2 attachment_domains_def)
  have classified3: "is_attachment_url (Some ?url3)"
    by (simp add: is_attachment_url_def truthy_def attachment_domains_def)
  have host3: "url_host ?url3 = ''example.com''"
    by (simp add: url_host_def)
  have foreign3: "\<not> host_in_allow_list ?url3"
    by (simp add: host_in_allow_list_def host3 attachment_domains_def)
  show ?thesis
    using classified host foreign out classified2 foreign2 classified3 foreign3
    by (intro conjI)
qed

text \<open>
  Claim C7. The two URLs below agree up to the question mark and differ in the query
  string only. The path has no segment of the form hex-name dot extension, and the first
  query string ends in \<open>/b.c\<close>: the first pattern matches there, inside the query string.
  The derived filenames differ, and the first one is taken from the token.
\<close>

theorem extract_filename_reads_query_string:
  "strip_query ''https://user-attachments.githubusercontent.com/files/Report.pdf?token=a/b.c'' =
     strip_query ''https://user-attachments.githubusercontent.com/files/Report.pdf?token=X''
   \<and> extract_filename ''https://user-attachments.githubusercontent.com/files/Report.pdf?token=a/b.c''
       = ''b.c''
   \<and> extract_filename ''https://user-attachments.githubusercontent.com/files/Report.pdf?token=X''
       = ''Report.pdf''"
  by (simp add: strip_query_def extract_filename_def match_uuid_name_def match_last_segment_def
        is_hex_def is_word_def is_segment_char_def query_or_dollar_def at_dollar_def)





section \<open>Pagination of the comments\<close>

lemma fetch_comments_page_returns:
  assumes "get_comments S url token (world r) = (Inr (comments_data, link), w)"
  shows "fetch_comments_page S url token r =
           (Inr (comments_data, has_next_marker link), r\<lparr>world := w, calls := calls r + 1\<rparr>)"
proof -
  have "fetch_comments_page_body S url token (world r) =
          (Inr (comments_data, has_next_marker link), w)"
    using assms by (simp add: fetch_comments_page_body_def has_next_marker_def)
  then show ?thesis
    unfolding fetch_comments_page_def by (rule retry_returns_first)
qed

lemma serve_next:
  "drop (length log) pages = p # ps \<Longrightarrow> serve pages url token log = (Inr p, log @ [url])"
  by (simp add: serve_def)

lemma drop_next: "drop n xs = y # ys \<Longrightarrow> drop (Suc n) xs = ys"
  by (metis drop_Suc list.sel(3) tl_drop)

lemma map_upt_Suc_shift: "map g [0 ..< Suc m] = g 0 # map (\<lambda>k. g (Suc k)) [0 ..< m]"
  by (induction m) simp_all

lemma fetch_comments_loop_pages:
  assumes backend: "get_comments S = serve pages"
    and more: "\<forall>p \<in> set front. fst p \<noteq> [] \<and> has_next_marker (snd p)"
    and stop: "fst lastp = [] \<or> \<not> has_next_marker (snd lastp)"
  shows "drop (length (world r)) pages = front @ lastp # rest \<Longrightarrow>
    page = length (world r) + 1 \<Longrightarrow>
    fetch_comments_loop S repo n token per_page page acc r =
      Some (Inr (acc @ map (comment_info_of S) (concat (map fst (front @ [lastp])))),
            r\<lparr>world := world r @ map (\<lambda>k. comments_api_url repo n per_page (page + k))
                                   [0 ..< Suc (length front)],
              calls := calls r + length front + 1\<rparr>)"
  using more
proof (induction front arbitrary: r page acc)
  case Nil
  let ?url = "comments_api_url repo n per_page page"
  have "get_comments S ?url token (world r) = (Inr (fst lastp, snd lastp), world r @ [?url])"
    using Nil.prems(1) by (simp add: backend serve_next)
  then have page: "fetch_comments_page S ?url token r =
      (Inr (fst lastp, has_next_marker (snd lastp)),
       r\<lparr>world := world r @ [?url], calls := calls r + 1\<rparr>)"
    by (rule fetch_comments_page_returns)
  show ?case
    using stop by (subst fetch_comments_loop.simps) (auto simp add: page)
next
  case (Cons p front)
  let ?url = "comments_api_url repo n per_page page"
  let ?r1 = "r\<lparr>world := world r @ [?url], calls := calls r + 1\<rparr>"
  have p: "fst p \<noteq> []" "has_next_marker (snd p)"
    using Cons.prems(3) by simp_all
  have "get_comments S ?url token (world r) = (Inr (fst p, snd p), world r @ [?url])"
    using Cons.prems(1) by (simp add: backend serve_next)
  then have page: "fetch_comments_page S ?url token r =
      (Inr (fst p, has_next_marker (snd p)), ?r1)"
    by (rule fetch_comments_page_returns)
  have rest: "drop (length (world ?r1)) pages = front @ lastp # rest"
    using drop_next [of "length (world r)" pages p "front @ lastp # rest"] Cons.prems(1)
    by simp
  have next_page: "page + 1 = length (world ?r1) + 1"
    using Cons.prems(2) by simp
  have more': "\<forall>p \<in> set front. fst p \<noteq> [] \<and> has_next_marker (snd p)"
    using Cons.prems(3) by simp
  have range: "map (\<lambda>k. comments_api_url repo n per_page (page + k)) [0 ..< Suc (length (p # front))] =
      ?url # map (\<lambda>k. comments_api_url repo n per_page (page + 1 + k)) [0 ..< Suc (length front)]"
    by (subst map_upt_Suc_shift) simp
  have step: "fetch_comments_loop S repo n token per_page page acc r =
      fetch_comments_loop S repo n token per_page (page + 1)
        (acc @ map (comment_info_of S) (fst p)) ?r1"
    by (subst fetch_comments_loop.simps) (simp add: page p)
  show ?case
    unfolding step Cons.IH [OF rest next_page more'] range
    by simp
qed

lemma comments_api_url_text:
  "comments_api_url repo n 100 page =
     ''https://api.github.com/repos/'' @ repo @ ''/issues/'' @ str_int n @
     ''/comments?per_page=100&page='' @ str_nat page"
  by (simp add: comments_api_url_def str_nat.simps)

lemma fetch_comments_html_pages_model:
  assumes "get_comments S = serve (front @ lastp # rest)"
    and "\<forall>p \<in> set front. fst p \<noteq> [] \<and> has_next_marker (snd p)"
    and "fst lastp = [] \<or> \<not> has_next_marker (snd lastp)"
    and "world r = []"
  shows "fetch_comments_html S repo n token r =
      Some (Inr (map (comment_info_of S) (concat (map fst (front @ [lastp])))),
            r\<lparr>world := map (comments_api_url repo n 100) [1 ..< length front + 2],
              calls := calls r + length front + 1\<rparr>)"
proof -
  have "map (\<lambda>k. comments_api_url repo n 100 (1 + k)) [0 ..< Suc (length front)] =
      map (comments_api_url repo n 100) (map (\<lambda>k. k + 1) [0 ..< Suc (length front)])"
    by simp
  also have "\<dots> = map (comments_api_url repo n 100) [1 ..< length front + 2]"
    by (simp only: map_add_upt) simp
  finally have range: "map (\<lambda>k. comments_api_url repo n 100 (1 + k)) [0 ..< Suc (length front)] =
      map (comments_api_url repo n 100) [1 ..< length front + 2]" .
  show ?thesis
    using fetch_comments_loop_pages [OF assms(1) assms(2) assms(3), of r rest 1 repo n token 100 "[]"]
      assms(4) range
    by (simp add: fetch_comments_html_def)
qed

text \<open>
  Claim C5. Against a backend that serves the pages \<open>front\<close>, each with comments and a
  \<open>next\<close> marker, and then a page \<open>lastp\<close> that is empty or has no marker, the fetcher
  returns. It has requested exactly the URLs
  \<^verbatim>\<open>https://api.github.com/repos/REPO/issues/N/comments?per_page=100&page=K\<close> for \<open>K\<close> from 1
  to \<open>length front + 1\<close>, in this order, one call each. It yields one entry for each comment
  of these pages, in the original order: the entry has the id, the creation time, the body
  and the HTML body of the comment (the empty string when the key is missing), the login
  of its user or \<open>ghost\<close>, and the attachments extracted from its HTML body. It stops exactly
  at the first page that is empty or carries no marker. With three pages of 100, 100 and 37
  comments these are 3 requests and 237 comments.
\<close>

theorem fetch_comments_html_pages:
  assumes "get_comments S = serve (front @ lastp # rest)"
    and "\<forall>p \<in> set front. fst p \<noteq> [] \<and> has_next_marker (snd p)"
    and "fst lastp = [] \<or> \<not> has_next_marker (snd lastp)"
    and "world r = []"
  shows "\<exists>cs. fetch_comments_html S repo n token r =
      Some (Inr cs,
            r\<lparr>world :=
                map (\<lambda>k. ''https://api.github.com/repos/'' @ repo @ ''/issues/'' @ str_int n @
                          ''/comments?per_page=100&page='' @ str_nat k)
                  [1 ..< length front + 2],
              calls := calls r + length front + 1\<rparr>)
    \<and> length cs = length (concat (map fst (front @ [lastp])))
    \<and> map ci_comment_id cs = map rc_id (concat (map fst (front @ [lastp])))
    \<and> map ci_author cs =
        map (\<lambda>c. case rc_user c of Some login \<Rightarrow> login | None \<Rightarrow> ''ghost'')
          (concat (map fst (front @ [lastp])))
    \<and> map ci_created_at cs = map rc_created_at (concat (map fst (front @ [lastp])))
    \<and> map ci_body cs =
        map (\<lambda>c. case rc_body c of None \<Rightarrow> Some [] | Some v \<Rightarrow> v)
          (concat (map fst (front @ [lastp])))
    \<and> map ci_body_html cs =
        map (\<lambda>c. case rc_body_html c of None \<Rightarrow> Some [] | Some v \<Rightarrow> v)
          (concat (map fst (front @ [lastp])))
    \<and> map ci_attachments cs =
        map (\<lambda>c. extract_attachments_from_html (html_feed S) (py_int S)
                   (case rc_body_html c of None \<Rightarrow> Some [] | Some v \<Rightarrow> v))
          (concat (map fst (front @ [lastp])))"
proof -
  let ?cs = "map (comment_info_of S) (concat (map fst (front @ [lastp])))"
  have urls: "map (comments_api_url repo n 100) [1 ..< length front + 2] =
      map (\<lambda>k. ''https://api.github.com/repos/'' @ repo @ ''/issues/'' @ str_int n @
                ''/comments?per_page=100&page='' @ str_nat k)
        [1 ..< length front + 2]"
    by (rule map_cong) (simp_all only: comments_api_url_text)
  have run: "fetch_comments_html S repo n token r =
      Some (Inr ?cs,
            r\<lparr>world :=
                map (\<lambda>k. ''https://api.github.com/repos/'' @ repo @ ''/issues/'' @ str_int n @
                          ''/comments?per_page=100&page='' @ str_nat k)
                  [1 ..< length front + 2],
              calls := calls r + length front + 1\<rparr>)"
    using fetch_comments_html_pages_model [OF assms, of repo n token] by (simp only: urls)
  have fields: "length ?cs = length (concat (map fst (front @ [lastp])))"
    "map ci_comment_id ?cs = map rc_id (concat (map fst (front @ [lastp])))"
    "map ci_author ?cs =
        map (\<lambda>c. case rc_user c of Some login \<Rightarrow> login | None \<Rightarrow> ''ghost'')
          (concat (map fst (front @ [lastp])))"
    "map ci_created_at ?cs = map rc_created_at (concat (map fst (front @ [lastp])))"
    "map ci_body ?cs =
        map (\<lambda>c. case rc_body c of None \<Rightarrow> Some [] | Some v \<Rightarrow> v)
          (concat (map fst (front @ [lastp])))"
    "map ci_body_html ?cs =
        map (\<lambda>c. case rc_body_html c of None \<Rightarrow> Some [] | Some v \<Rightarrow> v)
          (concat (map fst (front @ [lastp])))"
    "map ci_attachments ?cs =
        map (\<lambda>c. extract_attachments_from_html (html_feed S) (py_int S)
                   (case rc_body_html c of None \<Rightarrow> Some [] | Some v \<Rightarrow> v))
          (concat (map fst (front @ [lastp])))"
    by (simp_all add: comment_info_of_def Let_def comp_def del: map_append map_concat)
  show ?thesis
    using run fields by blast
qed

theorem fetch_comments_html_pages_witness:
  "map_option (\<lambda>(result, r). (map_sum id (map ci_comment_id) result, r))
     (fetch_comments_html
        (stub_sys\<lparr>get_comments :=
           serve [(numbered_comments 0 100, Some next_link),
                  (numbered_comments 100 200, Some next_link),
                  (numbered_comments 200 237, None)]\<rparr>)
        ''octo/repo'' 7 ''token'' \<lparr>world = [], calls = 0, sleeps = []\<rparr>) =
   Some (Inr (map int [0 ..< 237]),
         \<lparr>world =
            [''https://api.github.com/repos/octo/repo/issues/7/comments?per_page=100&page=1'',
             ''https://api.github.com/repos/octo/repo/issues/7/comments?per_page=100&page=2'',
             ''https://api.github.com/repos/octo/repo/issues/7/comments?per_page=100&page=3''],
          calls = 3, sleeps = []\<rparr>)
   \<and> length (map int [0 ..< 237]) = 237"
proof -
  let ?pages = "[(numbered_comments 0 100, Some next_link),
                 (numbered_comments 100 200, Some next_link),
                 (numbered_comments 200 237, None)]"
  let ?S = "stub_sys\<lparr>get_comments := serve ?pages\<rparr> :: (string list, string, string) sys"
  let ?front = "[(numbered_comments 0 100, Some next_link), (numbered_comments 100 200, Some next_link)]"
  let ?lastp = "(numbered_comments 200 237, None :: string option)"
  let ?r = "\<lparr>world = [] :: string list, calls = 0, sleeps = []\<rparr>"
  have marker: "has_next_marker (Some next_link)"
    by (simp add: has_next_marker_def next_link_def rel_next_def)
  have none: "\<not> has_next_marker None"
    by (simp add: has_next_marker_def rel_next_def)
  have nonempty: "\<And>lo hi. lo < hi \<Longrightarrow> numbered_comments lo hi \<noteq> []"
    by (simp add: numbered_comments_def)
  have ids: "\<And>lo hi. map rc_id (numbered_comments lo hi) = map int [lo ..< hi]"
    by (simp add: numbered_comments_def comp_def)
  have h1: "get_comments ?S = serve (?front @ ?lastp # [])"
    by simp
  have h2: "\<forall>p \<in> set ?front. fst p \<noteq> [] \<and> has_next_marker (snd p)"
    by (simp add: marker nonempty)
  have h3: "fst ?lastp = [] \<or> \<not> has_next_marker (snd ?lastp)"
    by (simp add: none)
  have h4: "world ?r = []"
    by simp
  have pages: "[1 ..< length ?front + 2] = [1, 2, 3]"
    by (simp add: upt_rec)
  have all: "concat (map fst (?front @ [?lastp])) =
      numbered_comments 0 100 @ numbered_comments 100 200 @ numbered_comments 200 237"
    by simp
  have join: "[0 ..< 100] @ [100 ..< 200] @ [200 ..< 237] = [0 ..< 237::nat]"
    using upt_add_eq_append [of 0 100 100] upt_add_eq_append [of 0 200 37]
    by (simp del: upt_rec_numeral)
  have numbers: "str_int 7 = ''7''" "str_nat (Suc 0) = ''1''" "str_nat 2 = ''2''"
      "str_nat 3 = ''3''"
    by (simp_all add: str_int_def str_nat.simps)
  obtain cs where run: "fetch_comments_html ?S ''octo/repo'' 7 ''token'' ?r =
      Some (Inr cs,
            ?r\<lparr>world :=
                map (\<lambda>k. ''https://api.github.com/repos/'' @ ''octo/repo'' @ ''/issues/'' @ str_int 7 @
                          ''/comments?per_page=100&page='' @ str_nat k)
                  [1 ..< length ?front + 2],
              calls := calls ?r + length ?front + 1\<rparr>)"
    and cs: "map ci_comment_id cs = map rc_id (concat (map fst (?front @ [?lastp])))"
    using fetch_comments_html_pages [OF h1 h2 h3 h4, of "''octo/repo''" 7 "''token''"]
    by blast
  have "map ci_comment_id cs = map int [0 ..< 237]"
    unfolding cs all by (simp only: map_append ids join [symmetric])
  moreover have "length (map int [0 ..< 237]) = 237"
    by (simp del: upt_rec_numeral)
  ultimately show ?thesis
    unfolding run pages by (simp add: numbers del: upt_rec_numeral)
qed


section \<open>Properties of the priority classification\<close>

lemma priority_loop_precedence:
  "priority_loop p labels =
     (let names = map lower labels in
      if list_ex (py_in ''critical'') names then ''critical''
      else if list_ex (py_in ''high'') names then ''high''
      else if p \<noteq> ''unprioritized'' then p
      else (case find (\<lambda>n. py_in ''medium'' n \<or> py_in ''low'' n) names of
              None \<Rightarrow> ''unprioritized''
            | Some n \<Rightarrow> if py_in ''medium'' n then ''medium'' else ''low''))"
proof (induction labels arbitrary: p)
  case Nil
  then show ?case by simp
next
  case (Cons name rest)
  have neq: "''high'' \<noteq> ''unprioritized''" "''medium'' \<noteq> ''unprioritized''"
    "''low'' \<noteq> ''unprioritized''"
    by simp_all
  show ?case
    unfolding priority_loop.simps Let_def Cons.IH
    using neq by (simp del: py_in.simps)
qed

text \<open>
  Claim C8, as the code has it. On the lowercased label names: a label that contains
  \<open>critical\<close>, at any position, gives critical; otherwise a label that contains \<open>high\<close>, at
  any position, gives high, also after an earlier medium or low; otherwise the first label
  that contains \<open>medium\<close> or \<open>low\<close> decides, medium when it contains \<open>medium\<close> and low when
  not, so that a later medium does not replace an earlier low; otherwise the issue is
  unprioritized.
\<close>

theorem issue_priority_precedence:
  "issue_priority labels =
     (let names = map lower labels in
      if list_ex (py_in ''critical'') names then ''critical''
      else if list_ex (py_in ''high'') names then ''high''
      else (case find (\<lambda>n. py_in ''medium'' n \<or> py_in ''low'' n) names of
              None \<Rightarrow> ''unprioritized''
            | Some n \<Rightarrow> if py_in ''medium'' n then ''medium'' else ''low''))"
  by (simp add: issue_priority_def priority_loop_precedence Let_def del: py_in.simps)

text \<open>
  Claim C8, as stated, fails. With the labels \<open>low\<close> and \<open>medium\<close> in this order the
  precedence of medium over low gives medium, and the loop gives low.
\<close>

theorem low_before_medium_stays_low:
  "issue_priority [''low'', ''medium''] = ''low'' \<and>
   priority_by_precedence [''low'', ''medium''] = ''medium''"
  by (simp add: issue_priority_def priority_by_precedence_def lower_def lower_char_def)


section \<open>Properties of the download phase\<close>














end
